theory Spec2Isabelle
  imports Main "HOL-Library.List_Lexorder"
begin

section \<open>Data model\<close>

text \<open>
  The rows of the three tables of \<^verbatim>\<open>models.py\<close> and of the host's page tree.
  A primary key is a natural number. A model instance held by the Python code is the
  record value that was read; the store is the record \<open>db\<close> below.
\<close>

type_synonym pk = nat

text \<open>\<^verbatim>\<open>class Language(models.Model)\<close>, lines 87-113.\<close>

record Language =
  lang_pk :: pk
  code :: string
  is_default :: bool
  position :: int
  lang_live :: bool

text \<open>\<^verbatim>\<open>class TranslatablePageItem(models.Model)\<close>, lines 142-165: both page
  references are nullable, the language is not.\<close>

record TranslatablePageItem =
  page :: "pk option"
  canonical_page :: "pk option"
  language :: pk

text \<open>
  A row of the host's page table (\<^verbatim>\<open>wagtailcore.Page\<close>): its key, its
  materialised tree path (the list of steps from the root), slug, title and live flag.
  \<open>is_translatable_page\<close> says that the row also has its part in the table of
  \<^verbatim>\<open>class TranslatablePage(Page)\<close> (lines 312-319, multi-table inheritance), whose
  two columns are \<open>canonical_page_id\<close> (nullable) and \<open>language_id\<close>.
\<close>

record Page =
  pk :: pk
  path :: "nat list"
  slug :: string
  title :: string
  live :: bool
  is_translatable_page :: bool
  canonical_page_id :: "pk option"
  language_id :: pk

record Site =
  site_pk :: pk
  root_page :: pk

text \<open>\<^verbatim>\<open>class SiteLanguages(BaseSetting)\<close>, lines 452-456.\<close>

record SiteLanguages =
  sl_site :: pk
  default_language :: "pk option"
  other_languages :: "pk list"

text \<open>The store: the tables, and the two settings read through
  \<^verbatim>\<open>get_wagtailtrans_setting\<close> / \<^verbatim>\<open>settings.WAGTAILTRANS_SYNC_TREE\<close>.
  The item table is kept in key order (rows are appended on creation).\<close>

record db =
  languages :: "Language list"
  pages :: "Page list"
  items :: "TranslatablePageItem list"
  sites :: "Site list"
  site_languages :: "SiteLanguages list"
  SYNC_TREE :: bool
  LANGUAGES_PER_SITE :: bool

text \<open>The exceptions the code raises or lets through. \<open>TranslationExists\<close> is
  \<^verbatim>\<open>Exception("Translation already exists")\<close> (line 216). Django gives every model
  class its own \<^verbatim>\<open>DoesNotExist\<close> and \<^verbatim>\<open>MultipleObjectsReturned\<close>; the
  class of \<^verbatim>\<open>TranslatablePageItem\<close> does not derive from that of
  \<^verbatim>\<open>TranslatablePage\<close>.\<close>

datatype model_name = M_TranslatablePage | M_TranslatablePageItem

datatype error =
    TranslationExists
  | AttributeError
  | DoesNotExist model_name
  | MultipleObjectsReturned model_name
  | ProtectedError
  | IntegrityError
  | InvalidMoveToDescendant
  | MissingNodeOrderBy
  | TypeError
  | SiteSettingError
  | Http404

section \<open>Query sets\<close>

text \<open>\<^verbatim>\<open>QuerySet.get()\<close>: the single row, or the model's exception.\<close>

definition qs_get :: "model_name \<Rightarrow> 'a list \<Rightarrow> error + 'a" where
  "qs_get m rows =
     (case rows of
        [] \<Rightarrow> Inl (DoesNotExist m)
      | [r] \<Rightarrow> Inr r
      | _ # _ # _ \<Rightarrow> Inl (MultipleObjectsReturned m))"

text \<open>\<^verbatim>\<open>QuerySet.first()\<close>.\<close>

definition qs_first :: "'a list \<Rightarrow> 'a option" where
  "qs_first rows = (case rows of [] \<Rightarrow> None | r # _ \<Rightarrow> Some r)"

text \<open>\<^verbatim>\<open>path__startswith\<close>.\<close>

definition startswith :: "'a list \<Rightarrow> 'a list \<Rightarrow> bool" where
  "startswith s pre = (take (length pre) s = pre)"

text \<open>The host's page manager returns rows in path order; \<^verbatim>\<open>TranslatablePage.objects\<close>
  are the rows that have a \<^verbatim>\<open>TranslatablePage\<close> part.\<close>

definition Page_objects :: "db \<Rightarrow> Page list" where
  "Page_objects d = sort_key path (pages d)"

definition TranslatablePage_objects :: "db \<Rightarrow> Page list" where
  "TranslatablePage_objects d = filter is_translatable_page (Page_objects d)"

text \<open>\<^verbatim>\<open>Language.objects\<close>: \<^verbatim>\<open>Meta.ordering = ['position']\<close> (line 105).\<close>

definition Language_objects :: "db \<Rightarrow> Language list" where
  "Language_objects d = sort_key position (languages d)"

definition get_language :: "db \<Rightarrow> pk \<Rightarrow> Language option" where
  "get_language d k = find (\<lambda>l. lang_pk l = k) (languages d)"

section \<open>The host's tree operations\<close>

text \<open>
  The page tree belongs to the host framework (wagtail on treebeard's materialised
  paths); the repository only calls it. What the calls do is written here from the
  host's documented behaviour, as far as the repository's code depends on it.
\<close>

definition get_page :: "db \<Rightarrow> pk \<Rightarrow> Page option" where
  "get_page d k = find (\<lambda>p. pk p = k) (pages d)"

text \<open>\<^verbatim>\<open>Page.get_parent()\<close>: the row one step up the instance's path; a root has none.\<close>

definition get_parent :: "db \<Rightarrow> Page \<Rightarrow> Page option" where
  "get_parent d self =
     (if length (path self) \<le> 1 then None
      else find (\<lambda>q. path q = butlast (path self)) (pages d))"

text \<open>\<^verbatim>\<open>Page.get_children()\<close>.\<close>

definition get_children :: "db \<Rightarrow> Page \<Rightarrow> Page list" where
  "get_children d self =
     filter (\<lambda>q. path q \<noteq> [] \<and> butlast (path q) = path self) (Page_objects d)"

text \<open>\<^verbatim>\<open>Page.get_site()\<close>: the site under whose root page the instance lies, if any.\<close>

definition get_site :: "db \<Rightarrow> Page \<Rightarrow> Site option" where
  "get_site d self =
     find (\<lambda>s. case get_page d (root_page s) of
                  None \<Rightarrow> False
                | Some r \<Rightarrow> startswith (path self) (path r)) (sites d)"

text \<open>A new row gets a key above every key in use, and a new child a step above every
  step in use under its parent.\<close>

definition new_pk :: "db \<Rightarrow> pk" where
  "new_pk d = Suc (fold max (map pk (pages d)) 0)"

definition new_child_path :: "db \<Rightarrow> nat list \<Rightarrow> nat list" where
  "new_child_path d pp =
     pp @ [Suc (fold max (map last (filter (\<lambda>q. q \<noteq> [] \<and> butlast q = pp) (map path (pages d)))) 0)]"

text \<open>What \<^verbatim>\<open>parent\<close> is bound to in \<^verbatim>\<open>create_translation\<close>: a page (the
  caller's, or \<^verbatim>\<open>site.root_page\<close>), or the \<^verbatim>\<open>TranslatablePageItem\<close> that
  \<^verbatim>\<open>get_translation_parent\<close> returns at line 309; \<open>None\<close> is Python's
  \<^verbatim>\<open>None\<close>.\<close>

datatype parent_ref = ParentPage Page | ParentItem TranslatablePageItem

definition is_page_ref :: "parent_ref option \<Rightarrow> bool" where
  "is_page_ref parent = (case parent of Some (ParentPage p) \<Rightarrow> True | _ \<Rightarrow> False)"

text \<open>\<^verbatim>\<open>parent.add_child(instance=new_page)\<close>: only a page has the method.\<close>

definition add_child :: "db \<Rightarrow> parent_ref option \<Rightarrow> Page \<Rightarrow> (error + Page) \<times> db" where
  "add_child d parent inst =
     (case parent of
        Some (ParentPage p) \<Rightarrow>
          (let new_page = inst\<lparr>pk := new_pk d, path := new_child_path d (path p)\<rparr>
           in (Inr new_page, d\<lparr>pages := pages d @ [new_page]\<rparr>))
      | _ \<Rightarrow> (Inl AttributeError, d))"

text \<open>\<^verbatim>\<open>self.add_sibling(instance=...)\<close>.\<close>

definition add_sibling :: "db \<Rightarrow> Page \<Rightarrow> Page \<Rightarrow> (error + Page) \<times> db" where
  "add_sibling d self inst =
     (let new_page = inst\<lparr>pk := new_pk d, path := new_child_path d (butlast (path self))\<rparr>
      in (Inr new_page, d\<lparr>pages := pages d @ [new_page]\<rparr>))"

text \<open>The dictionary \<^verbatim>\<open>update_attrs\<close> of lines 226-230.\<close>

record update_attrs =
  ua_title :: string
  ua_slug :: string
  ua_live :: bool

text \<open>\<^verbatim>\<open>Page.copy(update_attrs=..., to=...)\<close>: a copy of the instance's fields with
  the overrides set, added under \<^verbatim>\<open>to\<close> when that is given and true
  (\<^verbatim>\<open>to.add_child\<close>), as a sibling of the instance otherwise.\<close>

definition copy :: "db \<Rightarrow> Page \<Rightarrow> update_attrs \<Rightarrow> parent_ref option \<Rightarrow> (error + Page) \<times> db" where
  "copy d self ua to =
     (let page_copy = self\<lparr>title := ua_title ua, slug := ua_slug ua, live := ua_live ua\<rparr>
      in case to of
           None \<Rightarrow> add_sibling d self page_copy
         | Some t \<Rightarrow> add_child d (Some t) page_copy)"

section \<open>The translation registry (\<^verbatim>\<open>TranslatablePageMixin\<close>)\<close>

text \<open>\<^verbatim>\<open>translatable_page_item\<close> (lines 176-179) and \<^verbatim>\<open>language\<close>
  (lines 169-174). The language column of an item is a protected foreign key, so the
  row it names exists; a key with no row reads as \<open>None\<close>.\<close>

definition translatable_page_item :: "db \<Rightarrow> Page \<Rightarrow> TranslatablePageItem option" where
  "translatable_page_item d self = qs_first (filter (\<lambda>i. page i = Some (pk self)) (items d))"

definition language_of :: "db \<Rightarrow> Page \<Rightarrow> Language option" where
  "language_of d self =
     (case translatable_page_item d self of
        None \<Rightarrow> None
      | Some item \<Rightarrow> get_language d (language item))"

text \<open>\<^verbatim>\<open>has_translation\<close>, lines 196-203.\<close>

definition has_translation :: "db \<Rightarrow> Page \<Rightarrow> Language \<Rightarrow> bool" where
  "has_translation d self lang =
     (filter (\<lambda>i. canonical_page i = Some (pk self) \<and> language i = lang_pk lang) (items d) \<noteq> [])"

text \<open>\<^verbatim>\<open>Language.has_pages_in_site\<close>, lines 112-113: any item whose page lies under
  the site's root; the language itself is not part of the filter.\<close>

definition page_path_startswith :: "db \<Rightarrow> TranslatablePageItem \<Rightarrow> nat list \<Rightarrow> bool" where
  "page_path_startswith d i pre =
     (case page i of
        None \<Rightarrow> False
      | Some k \<Rightarrow> (case get_page d k of None \<Rightarrow> False | Some p \<Rightarrow> startswith (path p) pre))"

definition has_pages_in_site :: "db \<Rightarrow> Language \<Rightarrow> Page \<Rightarrow> bool" where
  "has_pages_in_site d lang site_root =
     (filter (\<lambda>i. page_path_startswith d i (path site_root)) (items d) \<noteq> [])"

text \<open>\<^verbatim>\<open>get_translation_parent\<close>, lines 294-309. \<^verbatim>\<open>site.root_page\<close> on no site
  is an attribute error; the result is the site's root page, or the first item found
  (the item itself, not its page), or \<open>None\<close>.\<close>

definition get_translation_parent :: "db \<Rightarrow> Page \<Rightarrow> Language \<Rightarrow> error + parent_ref option" where
  "get_translation_parent d self lang =
     (case get_site d self of
        None \<Rightarrow> Inl AttributeError
      | Some site \<Rightarrow>
          (case get_page d (root_page site) of
             None \<Rightarrow> Inl AttributeError
           | Some site_root \<Rightarrow>
               if \<not> has_pages_in_site d lang site_root then Inr (Some (ParentPage site_root))
               else Inr (map_option ParentItem
                      (qs_first (filter (\<lambda>i. page_path_startswith d i (path site_root)
                                           \<and> canonical_page i = map_option pk (get_parent d self)
                                           \<and> language i = lang_pk lang) (items d))))))"

text \<open>\<^verbatim>\<open>parent != self.get_parent()\<close> (line 234): two pages are equal when their keys
  are; an item never equals a page; \<^verbatim>\<open>None\<close> equals only \<^verbatim>\<open>None\<close>.\<close>

definition parent_differs :: "parent_ref option \<Rightarrow> Page option \<Rightarrow> bool" where
  "parent_differs parent gp =
     (case parent of
        None \<Rightarrow> gp \<noteq> None
      | Some (ParentPage p) \<Rightarrow> map_option pk gp \<noteq> Some (pk p)
      | Some (ParentItem i) \<Rightarrow> True)"

text \<open>\<^verbatim>\<open>_language_default\<close>, lines 132-139.
  Modelled from the spec: \<^verbatim>\<open>LanguageManager.default\<close> (\<^verbatim>\<open>managers.py\<close> is not
  among the sources) returns the default language: here the first language, in the
  manager's order, whose \<open>is_default\<close> is set.\<close>

definition Language_objects_default :: "db \<Rightarrow> Language option" where
  "Language_objects_default d = find is_default (Language_objects d)"

definition language_default :: "db \<Rightarrow> pk option" where
  "language_default d = map_option lang_pk (Language_objects_default d)"

text \<open>\<^verbatim>\<open>create_translation\<close>, lines 205-249. The branch without
  \<^verbatim>\<open>copy_fields\<close> builds a blank instance of the page's own class: when that class
  has the \<^verbatim>\<open>TranslatablePage\<close> columns, \<^verbatim>\<open>language\<close> takes its default and a
  missing default cannot be saved (the save happens inside \<^verbatim>\<open>add_child\<close>, after
  the method has been found on \<^verbatim>\<open>parent\<close>). The host's own validation of the new
  row (a slug already used by a sibling) is not part of the model.\<close>

text \<open>Lines 221-224: the slug of the translation.\<close>

definition translation_slug :: "Page \<Rightarrow> Language \<Rightarrow> Language \<Rightarrow> string" where
  "translation_slug self self_language lang =
     (if slug self = code self_language then code lang
      else slug self @ ''-'' @ code lang)"

text \<open>Lines 232-241: the new page, copied from the source or built blank.\<close>

definition create_page ::
  "db \<Rightarrow> Page \<Rightarrow> update_attrs \<Rightarrow> bool \<Rightarrow> parent_ref option \<Rightarrow> (error + Page) \<times> db" where
  "create_page d self ua copy_fields parent =
     (if copy_fields then
        copy d self ua (if parent_differs parent (get_parent d self) then parent else None)
      else if is_page_ref parent \<and> is_translatable_page self \<and> language_default d = None
        then (Inl IntegrityError, d)
      else
        add_child d parent
          \<lparr>pk = 0, path = [], slug = ua_slug ua, title = ua_title ua,
           live = ua_live ua, is_translatable_page = is_translatable_page self,
           canonical_page_id = None,
           language_id = (case language_default d of None \<Rightarrow> 0 | Some k \<Rightarrow> k)\<rparr>)"

text \<open>Lines 243-247: \<^verbatim>\<open>TranslatablePageItem.objects.create\<close>.\<close>

definition register_item :: "db \<Rightarrow> Page \<Rightarrow> Page \<Rightarrow> Language \<Rightarrow> db" where
  "register_item d new_page self lang =
     d\<lparr>items := items d @
          [\<lparr>page = Some (pk new_page), canonical_page = Some (pk self),
            language = lang_pk lang\<rparr>]\<rparr>"

text \<open>Lines 218-219: the parent given by the caller, or the one looked up.\<close>

definition resolve_parent :: "db \<Rightarrow> Page \<Rightarrow> Language \<Rightarrow> Page option \<Rightarrow> error + parent_ref option" where
  "resolve_parent d self lang parent =
     (case parent of
        None \<Rightarrow> get_translation_parent d self lang
      | Some p \<Rightarrow> Inr (Some (ParentPage p)))"

definition create_translation ::
  "db \<Rightarrow> Page \<Rightarrow> Language \<Rightarrow> bool \<Rightarrow> Page option \<Rightarrow> (error + Page) \<times> db" where
  "create_translation d self lang copy_fields parent =
     (if has_translation d self lang then (Inl TranslationExists, d)
      else
        case resolve_parent d self lang parent of
          Inl e \<Rightarrow> (Inl e, d)
        | Inr parent' \<Rightarrow>
            (case language_of d self of
               None \<Rightarrow> (Inl AttributeError, d)
             | Some self_language \<Rightarrow>
                 (case create_page d self
                         \<lparr>ua_title = title self,
                          ua_slug = translation_slug self self_language lang,
                          ua_live = False\<rparr> copy_fields parent' of
                    (Inl e, d1) \<Rightarrow> (Inl e, d1)
                  | (Inr new_page, d1) \<Rightarrow> (Inr new_page, register_item d1 new_page self lang))))"

section \<open>Translations of a page (\<^verbatim>\<open>TranslatablePage.get_translations\<close>)\<close>

text \<open>\<^verbatim>\<open>language__live=True\<close>: the join with the language table.\<close>

definition language__live :: "db \<Rightarrow> Page \<Rightarrow> bool" where
  "language__live d p =
     (case get_language d (language_id p) of None \<Rightarrow> False | Some l \<Rightarrow> lang_live l)"

text \<open>Lines 339-358. \<^verbatim>\<open>self.canonical_page_id or self.pk\<close> takes the page's own key
  when the column is null (or zero). No \<^verbatim>\<open>order_by\<close> is applied: the rows come in
  the manager's order.\<close>

definition get_translations :: "db \<Rightarrow> Page \<Rightarrow> bool \<Rightarrow> bool \<Rightarrow> Page list" where
  "get_translations d self only_live include_self =
     (let canonical_page_id' =
            (case canonical_page_id self of
               None \<Rightarrow> pk self
             | Some c \<Rightarrow> if c = 0 then pk self else c);
          translations =
            filter (\<lambda>p. canonical_page_id p = Some canonical_page_id' \<or> pk p = canonical_page_id')
              (TranslatablePage_objects d);
          translations1 =
            (if \<not> include_self then filter (\<lambda>p. pk p \<noteq> pk self) translations
             else translations);
          translations2 =
            (if only_live then filter (\<lambda>p. live p \<and> language__live d p) translations1
             else translations1)
      in translations2)"

text \<open>The property the docstring of \<^verbatim>\<open>get_translations\<close> states: "all pages are
  sorted by the language position".\<close>

definition language_position :: "db \<Rightarrow> Page \<Rightarrow> int" where
  "language_position d p =
     (case get_language d (language_id p) of None \<Rightarrow> 0 | Some l \<Rightarrow> position l)"

definition sorted_by_language_position :: "db \<Rightarrow> Page list \<Rightarrow> bool" where
  "sorted_by_language_position d ps = sorted (map (language_position d) ps)"

section \<open>Moving a page (\<^verbatim>\<open>TranslatablePageMixin.move\<close>)\<close>

text \<open>The positions of the host's \<^verbatim>\<open>move\<close> (\<^verbatim>\<open>'first-child'\<close>,
  \<^verbatim>\<open>'last-child'\<close>, \<^verbatim>\<open>'sorted-child'\<close>, \<^verbatim>\<open>'first-sibling'\<close>,
  \<^verbatim>\<open>'left'\<close>, \<^verbatim>\<open>'right'\<close>, \<^verbatim>\<open>'last-sibling'\<close>,
  \<^verbatim>\<open>'sorted-sibling'\<close>); \<open>None\<close> is the host's default.\<close>

datatype pos =
    FirstChild | LastChild | SortedChild
  | FirstSibling | LeftSibling | RightSibling | LastSibling | SortedSibling

text \<open>\<^verbatim>\<open>get_siblings()\<close>: the rows under the same parent, the instance among them,
  in path order; \<^verbatim>\<open>is_descendant_of\<close>; \<^verbatim>\<open>_inc_path()\<close>, the path with its last
  step raised by one.\<close>

definition get_siblings :: "db \<Rightarrow> Page \<Rightarrow> Page list" where
  "get_siblings d self =
     filter (\<lambda>q. path q \<noteq> [] \<and> butlast (path q) = butlast (path self)) (Page_objects d)"

definition is_descendant_of :: "Page \<Rightarrow> Page \<Rightarrow> bool" where
  "is_descendant_of a b = (startswith (path a) (path b) \<and> length (path b) < length (path a))"

definition inc_path :: "nat list \<Rightarrow> nat list" where
  "inc_path pth = butlast pth @ [Suc (last pth)]"

definition is_first_sibling :: "Page \<Rightarrow> Page list \<Rightarrow> bool" where
  "is_first_sibling t sibs = (case sibs of [] \<Rightarrow> False | s # _ \<Rightarrow> path s = path t)"

definition is_last_sibling :: "Page \<Rightarrow> Page list \<Rightarrow> bool" where
  "is_last_sibling t sibs = (sibs \<noteq> [] \<and> path (last sibs) = path t)"

text \<open>The siblings that have to make room: from the new path on, every sibling whose
  path is not above the path the one before it is shifted to.\<close>

fun movesiblings :: "nat list \<Rightarrow> Page list \<Rightarrow> Page list" where
  "movesiblings priorpath [] = []"
| "movesiblings priorpath (s # sibs) =
     (if priorpath < path s then []
      else s # movesiblings (inc_path (path s)) sibs)"

text \<open>The new place of one row: the rows of the moved branch go under the new path,
  the rows of a shifted sibling's branch one step to the right.\<close>

definition move_branch :: "nat list \<Rightarrow> nat list \<Rightarrow> Page list \<Rightarrow> Page \<Rightarrow> Page" where
  "move_branch oldpath newpath shifted q =
     (if startswith (path q) oldpath
      then q\<lparr>path := newpath @ drop (length oldpath) (path q)\<rparr>
      else
        (case find (\<lambda>s. startswith (path q) (path s)) shifted of
           None \<Rightarrow> q
         | Some s \<Rightarrow> q\<lparr>path := inc_path (path s) @ drop (length (path s)) (path q)\<rparr>))"

text \<open>
  \<^verbatim>\<open>super().move(target, pos)\<close>, the host's move (treebeard's materialised-path
  move, which wagtail's \<^verbatim>\<open>Page.move\<close> calls; wagtail's own bookkeeping of URL paths
  is not part of the model). It works from the paths the two instances carry.
  \<^item> No position means \<^verbatim>\<open>'last-sibling'\<close>; a sorted position needs a
    \<^verbatim>\<open>node_order_by\<close>, which pages do not have.
  \<^item> A move to a child of a leaf makes the page the first child; a move to a child of
    a page with children becomes a move to the first or last sibling of its last child.
  \<^item> A target below the moved page is refused.
  \<^item> A page that already is where the move would put it (left of itself, the last
    sibling moved last, the first sibling moved first) stays, and nothing changes.
  \<^item> Moved last, the page gets the step after the last sibling's. Otherwise it gets
    step 1 (first), the target's step (left) or the step after the target's (right),
    and the siblings in the way are shifted one step to the right with their branches.
\<close>

definition host_move :: "db \<Rightarrow> Page \<Rightarrow> Page \<Rightarrow> pos option \<Rightarrow> (error + unit) \<times> db" where
  "host_move d self target p =
     (let pos0 = (case p of None \<Rightarrow> LastSibling | Some x \<Rightarrow> x)
      in if pos0 = SortedChild \<or> pos0 = SortedSibling then (Inl MissingNodeOrderBy, d)
      else
        let to_child = (pos0 = FirstChild \<or> pos0 = LastChild);
            children = get_children d target;
            first_of_leaf = (to_child \<and> children = []);
            target1 = (if to_child \<and> children \<noteq> [] then last children else target);
            pos1 = (if pos0 = FirstChild then FirstSibling
                    else if pos0 = LastChild
                      then (if children = [] then FirstSibling else LastSibling)
                    else pos0);
            siblings = get_siblings d target1
        in if is_descendant_of target1 self then (Inl InvalidMoveToDescendant, d)
        else if path self = path target1
                \<and> (pos1 = LeftSibling
                     \<or> (pos1 = RightSibling \<or> pos1 = LastSibling)
                          \<and> is_last_sibling target1 siblings
                     \<or> pos1 = FirstSibling \<and> is_first_sibling target1 siblings)
          then (Inr (), d)
        else
          let parent_path = (if first_of_leaf then path target else butlast (path target1));
              easy = (pos1 = LastSibling
                      \<or> pos1 = RightSibling \<and> is_last_sibling target1 siblings)
          in if easy \<and> siblings = [] then (Inl AttributeError, d)
          else
            let newpos =
                  (if easy then Suc (last (path (last siblings)))
                   else if first_of_leaf \<or> pos1 = FirstSibling then 1
                   else if pos1 = LeftSibling then last (path target1)
                   else Suc (last (path target1)));
                newpath = parent_path @ [newpos];
                shifted =
                  (if easy \<or> first_of_leaf then []
                   else movesiblings newpath
                          (if pos1 = LeftSibling
                             then filter (\<lambda>s. path target1 \<le> path s) siblings
                           else if pos1 = RightSibling
                             then filter (\<lambda>s. path target1 < path s) siblings
                           else siblings))
            in (Inr (),
                d\<lparr>pages := map (move_branch (path self) newpath shifted) (pages d)\<rparr>))"

text \<open>\<^verbatim>\<open>SiteLanguages.for_site(site)\<close>, the host's \<^verbatim>\<open>BaseSetting.for_site\<close>: the
  site's row, a blank one when the site has none yet (the host inserts it; a blank row
  changes no answer here and the insertion is not recorded). There is no row for no
  site.\<close>

definition for_site :: "db \<Rightarrow> Site option \<Rightarrow> error + SiteLanguages" where
  "for_site d site =
     (case site of
        None \<Rightarrow> Inl SiteSettingError
      | Some s \<Rightarrow>
          Inr (case find (\<lambda>sl. sl_site sl = site_pk s) (site_languages d) of
                 None \<Rightarrow> \<lparr>sl_site = site_pk s, default_language = None, other_languages = []\<rparr>
               | Some sl \<Rightarrow> sl))"

text \<open>Lines 261-266: \<^verbatim>\<open>is_default\<close>. Per site, the setting's default language is
  compared with the page's language (\<^verbatim>\<open>None == None\<close> holds); otherwise
  \<^verbatim>\<open>self.language.is_default\<close>, an attribute error on a page with no item.\<close>

definition move_is_default :: "db \<Rightarrow> Page \<Rightarrow> error + bool" where
  "move_is_default d self =
     (if LANGUAGES_PER_SITE d then
        (case for_site d (get_site d self) of
           Inl e \<Rightarrow> Inl e
         | Inr lang_settings \<Rightarrow>
             Inr (default_language lang_settings = map_option lang_pk (language_of d self)))
      else
        (case language_of d self of
           None \<Rightarrow> Inl AttributeError
         | Some l \<Rightarrow> Inr (is_default l)))"

text \<open>Lines 282-283: \<^verbatim>\<open>getattr(canonical_target, 'canonical_page', False)\<close> is true
  when the target object has the column and it is set; the target is then replaced by
  its canonical page.\<close>

definition canonical_identity :: "Page \<Rightarrow> pk" where
  "canonical_identity canonical_target =
     (if is_translatable_page canonical_target then
        (case canonical_page_id canonical_target of
           None \<Rightarrow> pk canonical_target
         | Some c \<Rightarrow> c)
      else pk canonical_target)"

text \<open>Lines 287-289: the rows the filter selects for one translation.\<close>

definition translation_targets :: "db \<Rightarrow> pk \<Rightarrow> Page \<Rightarrow> Page list" where
  "translation_targets d ct page' =
     filter (\<lambda>p. language_id p = language_id page'
                  \<and> (canonical_page_id p = Some ct \<or> pk p = ct))
       (TranslatablePage_objects d)"

text \<open>
  The call \<^verbatim>\<open>page.move(target=target, pos=pos, suppress_sync=True)\<close> of line 292.
  \<^verbatim>\<open>page\<close> is a row of \<^verbatim>\<open>TranslatablePage.objects\<close> (lines 280, 350), an
  instance of \<^verbatim>\<open>class TranslatablePage(Page)\<close> (line 312), which does not have
  the mixin among its bases. Its \<^verbatim>\<open>move\<close> is the host's
  \<^verbatim>\<open>Page.move(target, pos)\<close>, which has no parameter \<^verbatim>\<open>suppress_sync\<close>:
  Python refuses the call with a \<^verbatim>\<open>TypeError\<close> before the method runs, and
  nothing is moved.
\<close>

definition Page_move_suppress_sync ::
  "db \<Rightarrow> Page \<Rightarrow> Page \<Rightarrow> pos option \<Rightarrow> (error + unit) \<times> db" where
  "Page_move_suppress_sync d page' target p = (Inl TypeError, d)"

text \<open>The loop of lines 285-292. The rows of the query set are read once, when the
  loop starts; on such a row \<^verbatim>\<open>page.language\<close> is the column of
  \<^verbatim>\<open>TranslatablePage\<close>.\<close>

fun move_each :: "db \<Rightarrow> Page list \<Rightarrow> pk \<Rightarrow> pos option \<Rightarrow> (error + unit) \<times> db" where
  "move_each d [] ct p = (Inr (), d)"
| "move_each d (page' # translations) ct p =
     (case qs_get M_TranslatablePage (translation_targets d ct page') of
        Inl e \<Rightarrow> (Inl e, d)
      | Inr target \<Rightarrow>
          (case Page_move_suppress_sync d page' target p of
             (Inl e, d1) \<Rightarrow> (Inl e, d1)
           | (Inr u, d1) \<Rightarrow> move_each d1 translations ct p))"

text \<open>\<^verbatim>\<open>move_translated_pages\<close>, lines 271-292.\<close>

definition move_translated_pages ::
  "db \<Rightarrow> Page \<Rightarrow> Page \<Rightarrow> pos option \<Rightarrow> (error + unit) \<times> db" where
  "move_translated_pages d self canonical_target p =
     move_each d (get_translations d self False False) (canonical_identity canonical_target) p"

text \<open>\<^verbatim>\<open>move\<close>, lines 251-269; inside the mixin \<^verbatim>\<open>self.language\<close> is the
  mixin's property.\<close>

definition move ::
  "db \<Rightarrow> Page \<Rightarrow> Page \<Rightarrow> pos option \<Rightarrow> bool \<Rightarrow> (error + unit) \<times> db" where
  "move d self target p suppress_sync =
     (case host_move d self target p of
        (Inl e, d1) \<Rightarrow> (Inl e, d1)
      | (Inr u, d1) \<Rightarrow>
          (case move_is_default d1 self of
             Inl e \<Rightarrow> (Inl e, d1)
           | Inr is_default' \<Rightarrow>
               if \<not> suppress_sync \<and> SYNC_TREE d1 \<and> is_default'
               then move_translated_pages d1 self target p
               else (Inr (), d1)))"

section \<open>Serving the site root (\<^verbatim>\<open>TranslatableSiteRootPage.serve\<close>)\<close>

text \<open>The request: \<^verbatim>\<open>LANGUAGE_CODE\<close> may be absent (\<^verbatim>\<open>hasattr\<close>).\<close>

record request =
  LANGUAGE_CODE :: "string option"
  request_site :: "Site option"

text \<open>Modelled from the spec: \<^verbatim>\<open>LanguageManager.live\<close> and
  \<^verbatim>\<open>LanguageManager.default_for_site\<close> (\<^verbatim>\<open>managers.py\<close> is not among the
  sources). The live languages are those with \<open>lang_live\<close>; the default for a site is
  the global default language, or with \<^verbatim>\<open>LANGUAGES_PER_SITE\<close> the default
  language of the site's settings.\<close>

definition Language_objects_live :: "db \<Rightarrow> Language list" where
  "Language_objects_live d = filter lang_live (Language_objects d)"

definition default_for_site :: "db \<Rightarrow> Site option \<Rightarrow> Language option" where
  "default_for_site d site =
     (if LANGUAGES_PER_SITE d then
        (case for_site d site of
           Inl e \<Rightarrow> None
         | Inr lang_settings \<Rightarrow>
             (case default_language lang_settings of
                None \<Rightarrow> None
              | Some k \<Rightarrow> get_language d k))
      else Language_objects_default d)"

text \<open>\<^verbatim>\<open>get_user_language\<close>, lines 365-376.\<close>

definition get_user_language :: "db \<Rightarrow> request \<Rightarrow> Language option" where
  "get_user_language d req =
     (case LANGUAGE_CODE req of
        None \<Rightarrow> default_for_site d (request_site req)
      | Some c \<Rightarrow>
          (case qs_first (filter (\<lambda>l. code l = c) (Language_objects_live d)) of
             Some l \<Rightarrow> Some l
           | None \<Rightarrow> default_for_site d (request_site req)))"

text \<open>The response \<^verbatim>\<open>redirect(translation.page.url)\<close>, named by the page whose URL
  it carries (the host computes the URL).\<close>

datatype response = Redirect pk

text \<open>Lines 397: the items of the live children in the language.\<close>

definition serve_candidates :: "db \<Rightarrow> Page \<Rightarrow> Language option \<Rightarrow> TranslatablePageItem list" where
  "serve_candidates d self lang =
     (let root_pages = filter live (get_children d self)
      in filter (\<lambda>i. (case page i of None \<Rightarrow> False | Some k \<Rightarrow> k \<in> set (map pk root_pages))
                     \<and> Some (language i) = map_option lang_pk lang) (items d))"

text \<open>\<^verbatim>\<open>serve\<close>, lines 388-402. \<^verbatim>\<open>candidates\<close> is a query set of
  \<^verbatim>\<open>TranslatablePageItem\<close>, so \<^verbatim>\<open>get()\<close> raises that model's exceptions; the
  handler catches \<^verbatim>\<open>TranslatablePage.DoesNotExist\<close> and lets every other exception
  through.\<close>

definition serve :: "db \<Rightarrow> Page \<Rightarrow> request \<Rightarrow> error + response" where
  "serve d self req =
     (let language' = get_user_language d req;
          candidates = serve_candidates d self language'
      in case qs_get M_TranslatablePageItem candidates of
           Inr translation \<Rightarrow>
             (case page translation of
                None \<Rightarrow> Inl AttributeError
              | Some k \<Rightarrow> Inr (Redirect k))
         | Inl e \<Rightarrow> if e = DoesNotExist M_TranslatablePage then Inl Http404 else Inl e)"

section \<open>The signal handlers (\<^verbatim>\<open>signals.py\<close>)\<close>

text \<open>The loop of lines 31-32: one \<^verbatim>\<open>create_translation\<close> per language, with
  \<^verbatim>\<open>copy_fields=True\<close> and no parent; an exception ends the loop.\<close>

fun create_translations :: "db \<Rightarrow> Page \<Rightarrow> Language list \<Rightarrow> (error + unit) \<times> db" where
  "create_translations d inst [] = (Inr (), d)"
| "create_translations d inst (lang # langs) =
     (case create_translation d inst lang True None of
        (Inl e, d1) \<Rightarrow> (Inl e, d1)
      | (Inr new_page, d1) \<Rightarrow> create_translations d1 inst langs)"

text \<open>\<^verbatim>\<open>synchronize_trees\<close>, lines 13-32. \<^verbatim>\<open>instance.language\<close> is the property
  of the mixin (an instance without the attribute reads like one whose language is
  \<^verbatim>\<open>None\<close>). The languages of the loop are
  \<^verbatim>\<open>Language.objects.filter(is_default=False)\<close>.\<close>

definition synchronize_trees :: "db \<Rightarrow> Page \<Rightarrow> bool \<Rightarrow> (error + unit) \<times> db" where
  "synchronize_trees d inst created =
     (if \<not> created \<or> \<not> SYNC_TREE d
         \<or> (case language_of d inst of None \<Rightarrow> True | Some l \<Rightarrow> \<not> is_default l)
         \<or> get_site d inst = None
      then (Inr (), d)
      else create_translations d inst (filter (\<lambda>l. \<not> is_default l) (Language_objects d)))"

text \<open>
  \<^verbatim>\<open>QuerySet.delete()\<close> on pages. The host (treebeard) deletes the rows with their
  subtrees; Django then follows the \<^verbatim>\<open>on_delete\<close> rules the models declare:
  \<^verbatim>\<open>TranslatablePageItem.page\<close> is \<^verbatim>\<open>PROTECT\<close> (line 146), so an item that names a
  row to delete as its page makes the whole delete fail with \<^verbatim>\<open>ProtectedError\<close>;
  \<^verbatim>\<open>TranslatablePageItem.canonical_page\<close> is \<^verbatim>\<open>CASCADE\<close> (line 153);
  \<^verbatim>\<open>TranslatablePage.canonical_page\<close> is \<^verbatim>\<open>SET_NULL\<close> (line 318). The
  notifications the host sends for the rows it deletes are its own and are not followed
  here.
\<close>

definition doomed_pages :: "db \<Rightarrow> Page list \<Rightarrow> Page list" where
  "doomed_pages d rows =
     filter (\<lambda>p. list_ex (\<lambda>r. startswith (path p) (path r)) rows) (pages d)"

definition protected :: "db \<Rightarrow> Page list \<Rightarrow> bool" where
  "protected d doomed =
     list_ex (\<lambda>i. case page i of None \<Rightarrow> False | Some k \<Rightarrow> k \<in> set (map pk doomed)) (items d)"

definition queryset_delete :: "db \<Rightarrow> Page list \<Rightarrow> (error + unit) \<times> db" where
  "queryset_delete d rows =
     (let doomed = doomed_pages d rows;
          gone = set (map pk doomed)
      in if protected d doomed then (Inl ProtectedError, d)
         else
           (Inr (),
            d\<lparr>pages :=
                 map (\<lambda>p. case canonical_page_id p of
                             None \<Rightarrow> p
                           | Some c \<Rightarrow> if c \<in> gone then p\<lparr>canonical_page_id := None\<rparr> else p)
                   (filter (\<lambda>p. pk p \<notin> gone) (pages d)),
               items :=
                 filter (\<lambda>i. case canonical_page i of None \<Rightarrow> True | Some c \<Rightarrow> c \<notin> gone)
                   (items d)\<rparr>))"

text \<open>\<^verbatim>\<open>synchronize_deletions\<close>, lines 35-46; \<open>instance_pk\<close> is
  \<^verbatim>\<open>instance.pk\<close>.\<close>

definition synchronize_deletions :: "db \<Rightarrow> pk \<Rightarrow> (error + unit) \<times> db" where
  "synchronize_deletions d instance_pk =
     (case qs_first (filter (\<lambda>p. pk p = instance_pk) (TranslatablePage_objects d)) of
        None \<Rightarrow> (Inr (), d)
      | Some page' \<Rightarrow>
          if SYNC_TREE d
          then queryset_delete d
                 (filter (\<lambda>p. canonical_page_id p = Some (pk page')) (TranslatablePage_objects d))
          else (Inr (), d))"

section \<open>The registry's invariant\<close>

text \<open>No chained translations: whenever an item gives a page a canonical page, no item
  gives that canonical page a canonical page of its own.\<close>

definition no_chained_translations :: "db \<Rightarrow> bool" where
  "no_chained_translations d =
     list_all (\<lambda>i. case canonical_page i of
                     None \<Rightarrow> True
                   | Some c \<Rightarrow>
                       list_all (\<lambda>j. page j \<noteq> Some c \<or> canonical_page j = None) (items d))
       (items d)"

text \<open>A page that some item registers as the translation of another page.\<close>

definition is_registered_translation :: "db \<Rightarrow> Page \<Rightarrow> bool" where
  "is_registered_translation d self =
     list_ex (\<lambda>i. page i = Some (pk self) \<and> canonical_page i \<noteq> None) (items d)"

text \<open>The foreign key \<^verbatim>\<open>canonical_page\<close> of every item names a stored page.\<close>

definition canonical_pages_exist :: "db \<Rightarrow> bool" where
  "canonical_pages_exist d =
     list_all (\<lambda>i. case canonical_page i of
                     None \<Rightarrow> True
                   | Some c \<Rightarrow> c \<in> set (map pk (pages d)))
       (items d)"

section \<open>Example stores\<close>

text \<open>A site with root page 1 and, below it, the page \<open>home\<close> in the default language
  \<open>en\<close>; \<open>nl\<close> is a live language and \<open>fr\<close> a language that is not live.\<close>

definition ex_en :: Language where
  "ex_en = \<lparr>lang_pk = 1, code = ''en'', is_default = True, position = 0, lang_live = True\<rparr>"

definition ex_nl :: Language where
  "ex_nl = \<lparr>lang_pk = 2, code = ''nl'', is_default = False, position = 1, lang_live = True\<rparr>"

definition ex_fr :: Language where
  "ex_fr = \<lparr>lang_pk = 3, code = ''fr'', is_default = False, position = 2, lang_live = False\<rparr>"

definition ex_root :: Page where
  "ex_root = \<lparr>pk = 1, path = [1], slug = ''root'', title = ''Root'', live = True,
     is_translatable_page = False, canonical_page_id = None, language_id = 1\<rparr>"

definition ex_home :: Page where
  "ex_home = \<lparr>pk = 2, path = [1, 1], slug = ''home'', title = ''Home'', live = True,
     is_translatable_page = True, canonical_page_id = None, language_id = 1\<rparr>"

definition ex_db :: db where
  "ex_db = \<lparr>languages = [ex_en, ex_nl, ex_fr],
     pages = [ex_root, ex_home],
     items = [\<lparr>page = Some 2, canonical_page = None, language = 1\<rparr>],
     sites = [\<lparr>site_pk = 1, root_page = 1\<rparr>],
     site_languages = [],
     SYNC_TREE = True, LANGUAGES_PER_SITE = False\<rparr>"

text \<open>The page \<open>home-nl\<close>, as \<^verbatim>\<open>create_translation\<close> makes it from \<open>home\<close> under
  the root page, and the store with it.\<close>

definition ex_home_nl :: Page where
  "ex_home_nl = \<lparr>pk = 3, path = [1, 2], slug = ''home-nl'', title = ''Home'', live = False,
     is_translatable_page = True, canonical_page_id = None, language_id = 1\<rparr>"

definition ex_db_nl :: db where
  "ex_db_nl = ex_db\<lparr>pages := [ex_root, ex_home, ex_home_nl],
     items := [\<lparr>page = Some 2, canonical_page = None, language = 1\<rparr>,
               \<lparr>page = Some 3, canonical_page = Some 2, language = 2\<rparr>]\<rparr>"

lemmas ex_defs = ex_en_def ex_nl_def ex_fr_def ex_root_def ex_home_def ex_db_def
  ex_home_nl_def ex_db_nl_def

lemmas create_translation_defs = create_translation_def has_translation_def
  resolve_parent_def get_translation_parent_def has_pages_in_site_def
  page_path_startswith_def get_page_def get_site_def get_parent_def startswith_def
  language_of_def translatable_page_item_def qs_first_def get_language_def
  translation_slug_def create_page_def parent_differs_def is_page_ref_def
  language_default_def Language_objects_default_def Language_objects_def
  copy_def add_child_def add_sibling_def new_pk_def new_child_path_def
  register_item_def Let_def

text \<open>The page \<^verbatim>\<open>create_translation\<close> makes from \<open>home-nl\<close> for \<open>fr\<close>.\<close>

definition ex_home_nl_fr :: Page where
  "ex_home_nl_fr = \<lparr>pk = 4, path = [1, 3], slug = ''home-nl-fr'', title = ''Home'',
     live = False, is_translatable_page = True, canonical_page_id = None, language_id = 1\<rparr>"

definition ex_db_nl_fr :: db where
  "ex_db_nl_fr = ex_db\<lparr>pages := [ex_root, ex_home, ex_home_nl, ex_home_nl_fr],
     items := [\<lparr>page = Some 2, canonical_page = None, language = 1\<rparr>,
               \<lparr>page = Some 3, canonical_page = Some 2, language = 2\<rparr>,
               \<lparr>page = Some 4, canonical_page = Some 3, language = 3\<rparr>]\<rparr>"

lemmas ex_defs2 = ex_defs ex_home_nl_fr_def ex_db_nl_fr_def

text \<open>A store where the translations' path order and their languages' positions
  disagree: \<open>nl\<close> has position 2 and \<open>fr\<close> position 1, and the page in \<open>nl\<close>
  comes first in the tree.\<close>

definition ex_page_nl :: Page where
  "ex_page_nl = \<lparr>pk = 3, path = [1, 2], slug = ''home-nl'', title = ''Home'', live = True,
     is_translatable_page = True, canonical_page_id = Some 2, language_id = 2\<rparr>"

definition ex_page_fr :: Page where
  "ex_page_fr = \<lparr>pk = 4, path = [1, 3], slug = ''home-fr'', title = ''Home'', live = True,
     is_translatable_page = True, canonical_page_id = Some 2, language_id = 3\<rparr>"

definition ex_db_order :: db where
  "ex_db_order = \<lparr>languages =
       [ex_en,
        \<lparr>lang_pk = 2, code = ''nl'', is_default = False, position = 2, lang_live = True\<rparr>,
        \<lparr>lang_pk = 3, code = ''fr'', is_default = False, position = 1, lang_live = True\<rparr>],
     pages = [ex_root, ex_home, ex_page_nl, ex_page_fr],
     items = [],
     sites = [\<lparr>site_pk = 1, root_page = 1\<rparr>],
     site_languages = [],
     SYNC_TREE = True, LANGUAGES_PER_SITE = False\<rparr>"

lemmas ex_defs4 = ex_defs ex_page_nl_def ex_page_fr_def ex_db_order_def

text \<open>Requests at the site root: one with no language code, one asking for \<open>nl\<close>.\<close>

definition ex_request :: request where
  "ex_request = \<lparr>LANGUAGE_CODE = None, request_site = Some \<lparr>site_pk = 1, root_page = 1\<rparr>\<rparr>"

definition ex_request_nl :: request where
  "ex_request_nl = \<lparr>LANGUAGE_CODE = Some ''nl'', request_site = Some \<lparr>site_pk = 1, root_page = 1\<rparr>\<rparr>"

text \<open>The same tree, with an item that registers \<open>home-nl\<close> as a page.\<close>

definition ex_db_protected :: db where
  "ex_db_protected =
     ex_db_order\<lparr>items := [\<lparr>page = Some 3, canonical_page = Some 2, language = 2\<rparr>]\<rparr>"

text \<open>The store \<open>ex_db_order\<close> after the translations of \<open>home\<close> are deleted.\<close>

definition ex_db_deleted :: db where
  "ex_db_deleted = ex_db_order\<lparr>pages := [ex_root, ex_home]\<rparr>"

text \<open>A tree in two languages: \<open>home\<close> with its children \<open>about\<close> and \<open>team\<close>
  in \<open>en\<close>, and their translations in \<open>nl\<close>.\<close>

definition ex_about :: Page where
  "ex_about = \<lparr>pk = 3, path = [1, 1, 1], slug = ''about'', title = ''About'', live = True,
     is_translatable_page = True, canonical_page_id = None, language_id = 1\<rparr>"

definition ex_team :: Page where
  "ex_team = \<lparr>pk = 4, path = [1, 1, 2], slug = ''team'', title = ''Team'', live = True,
     is_translatable_page = True, canonical_page_id = None, language_id = 1\<rparr>"

definition ex_t_home_nl :: Page where
  "ex_t_home_nl = \<lparr>pk = 5, path = [1, 2], slug = ''home-nl'', title = ''Home'', live = True,
     is_translatable_page = True, canonical_page_id = Some 2, language_id = 2\<rparr>"

definition ex_about_nl :: Page where
  "ex_about_nl = \<lparr>pk = 6, path = [1, 2, 1], slug = ''about-nl'', title = ''About'',
     live = True, is_translatable_page = True, canonical_page_id = Some 3, language_id = 2\<rparr>"

definition ex_team_nl :: Page where
  "ex_team_nl = \<lparr>pk = 7, path = [1, 2, 2], slug = ''team-nl'', title = ''Team'', live = True,
     is_translatable_page = True, canonical_page_id = Some 4, language_id = 2\<rparr>"

definition ex_tree_items :: "TranslatablePageItem list" where
  "ex_tree_items =
     [\<lparr>page = Some 2, canonical_page = None, language = 1\<rparr>,
      \<lparr>page = Some 3, canonical_page = None, language = 1\<rparr>,
      \<lparr>page = Some 4, canonical_page = None, language = 1\<rparr>,
      \<lparr>page = Some 5, canonical_page = Some 2, language = 2\<rparr>,
      \<lparr>page = Some 6, canonical_page = Some 3, language = 2\<rparr>,
      \<lparr>page = Some 7, canonical_page = Some 4, language = 2\<rparr>]"

definition ex_tree :: db where
  "ex_tree = ex_db\<lparr>
     pages := [ex_root, ex_home, ex_about, ex_team, ex_t_home_nl, ex_about_nl, ex_team_nl],
     items := ex_tree_items\<rparr>"

text \<open>After the host has moved \<open>about\<close> under \<open>team\<close>.\<close>

definition ex_tree_moved1 :: db where
  "ex_tree_moved1 = ex_db\<lparr>
     pages := [ex_root, ex_home, ex_about\<lparr>path := [1, 1, 2, 1]\<rparr>, ex_team, ex_t_home_nl,
               ex_about_nl, ex_team_nl],
     items := ex_tree_items\<rparr>"

text \<open>The same tree with no translation of \<open>team\<close>, before and after \<open>about\<close> is
  moved.\<close>

definition ex_gap :: db where
  "ex_gap = ex_db\<lparr>
     pages := [ex_root, ex_home, ex_about, ex_team, ex_t_home_nl, ex_about_nl],
     items := ex_tree_items\<rparr>"

definition ex_gap_moved1 :: db where
  "ex_gap_moved1 = ex_db\<lparr>
     pages := [ex_root, ex_home, ex_about\<lparr>path := [1, 1, 2, 1]\<rparr>, ex_team, ex_t_home_nl,
               ex_about_nl],
     items := ex_tree_items\<rparr>"

lemmas ex_tree_defs = ex_about_def ex_team_def ex_t_home_nl_def ex_about_nl_def
  ex_team_nl_def ex_tree_items_def ex_tree_def ex_tree_moved1_def
  ex_gap_def ex_gap_moved1_def








section \<open>Facts about creating a page\<close>

lemma add_child_result:
  "add_child d parent inst = (Inr np, d') \<Longrightarrow>
     np = inst\<lparr>pk := new_pk d, path := path np\<rparr> \<and> d' = d\<lparr>pages := pages d @ [np]\<rparr>"
  by (auto simp: add_child_def Let_def split: option.splits parent_ref.splits)

lemma add_child_error:
  "add_child d parent inst = (Inl e, d') \<Longrightarrow> e = AttributeError \<and> d' = d"
  by (auto simp: add_child_def Let_def split: option.splits parent_ref.splits)

lemma add_sibling_result:
  "add_sibling d self inst = (r, d') \<Longrightarrow>
     \<exists>np. r = Inr np \<and> np = inst\<lparr>pk := new_pk d, path := path np\<rparr> \<and> d' = d\<lparr>pages := pages d @ [np]\<rparr>"
  by (auto simp: add_sibling_def Let_def)

lemma copy_result:
  assumes "copy d self ua to = (Inr np, d')"
  shows "np = self\<lparr>title := ua_title ua, slug := ua_slug ua, live := ua_live ua,
                   pk := new_pk d, path := path np\<rparr>
         \<and> d' = d\<lparr>pages := pages d @ [np]\<rparr>"
proof (cases to)
  case None
  with assms have "add_sibling d self (self\<lparr>title := ua_title ua, slug := ua_slug ua, live := ua_live ua\<rparr>) = (Inr np, d')"
    by (simp add: copy_def)
  from add_sibling_result[OF this] show ?thesis by auto
next
  case (Some t)
  with assms have "add_child d (Some t) (self\<lparr>title := ua_title ua, slug := ua_slug ua, live := ua_live ua\<rparr>) = (Inr np, d')"
    by (simp add: copy_def)
  from add_child_result[OF this] show ?thesis by auto
qed

lemma copy_error:
  assumes "copy d self ua to = (Inl e, d')"
  shows "e = AttributeError \<and> d' = d"
proof (cases to)
  case None
  with assms show ?thesis by (simp add: copy_def add_sibling_def Let_def)
next
  case (Some t)
  with assms have "add_child d (Some t) (self\<lparr>title := ua_title ua, slug := ua_slug ua, live := ua_live ua\<rparr>) = (Inl e, d')"
    by (simp add: copy_def)
  from add_child_error[OF this] show ?thesis .
qed

lemma create_page_result:
  assumes "create_page d self ua cf parent = (Inr np, d')"
  shows "title np = ua_title ua \<and> slug np = ua_slug ua \<and> live np = ua_live ua
         \<and> pk np = new_pk d \<and> is_translatable_page np = is_translatable_page self
         \<and> d' = d\<lparr>pages := pages d @ [np]\<rparr>"
proof (cases cf)
  case True
  with assms have "copy d self ua (if parent_differs parent (get_parent d self) then parent else None) = (Inr np, d')"
    by (simp add: create_page_def)
  from copy_result[OF this] obtain
    a: "np = self\<lparr>title := ua_title ua, slug := ua_slug ua, live := ua_live ua, pk := new_pk d, path := path np\<rparr>"
    and b: "d' = d\<lparr>pages := pages d @ [np]\<rparr>" by blast
  have "title np = ua_title ua" "slug np = ua_slug ua" "live np = ua_live ua" "pk np = new_pk d"
       "is_translatable_page np = is_translatable_page self"
    by (subst a, simp)+
  with b show ?thesis by simp
next
  case False
  with assms obtain inst where
    i: "inst = \<lparr>pk = 0, path = [], slug = ua_slug ua, title = ua_title ua,
           live = ua_live ua, is_translatable_page = is_translatable_page self,
           canonical_page_id = None,
           language_id = (case language_default d of None \<Rightarrow> 0 | Some k \<Rightarrow> k)\<rparr>"
    and c: "add_child d parent inst = (Inr np, d')"
    by (simp add: create_page_def split: if_splits)
  from add_child_result[OF c] have a: "np = inst\<lparr>pk := new_pk d, path := path np\<rparr>"
    and b: "d' = d\<lparr>pages := pages d @ [np]\<rparr>" by blast+
  have "title np = ua_title ua" "slug np = ua_slug ua" "live np = ua_live ua" "pk np = new_pk d"
       "is_translatable_page np = is_translatable_page self"
    by (subst a, simp add: i)+
  with b show ?thesis by simp
qed

lemma create_page_error:
  assumes "create_page d self ua cf parent = (Inl e, d')"
  shows "e \<noteq> TranslationExists \<and> d' = d"
proof (cases cf)
  case True
  with assms have "copy d self ua (if parent_differs parent (get_parent d self) then parent else None) = (Inl e, d')"
    by (simp add: create_page_def)
  from copy_error[OF this] show ?thesis by simp
next
  case False
  show ?thesis
  proof (cases "is_page_ref parent \<and> is_translatable_page self \<and> language_default d = None")
    case True
    with assms \<open>\<not> cf\<close> show ?thesis by (simp add: create_page_def)
  next
    case F: False
    with assms \<open>\<not> cf\<close> obtain inst where "add_child d parent inst = (Inl e, d')"
      by (simp add: create_page_def split: if_splits)
    from add_child_error[OF this] show ?thesis by simp
  qed
qed

lemma resolve_parent_error:
  "resolve_parent d self lang parent = Inl e \<Longrightarrow> e = AttributeError"
  by (auto simp: resolve_parent_def get_translation_parent_def split: option.splits if_splits)

lemma create_translation_result:
  assumes "create_translation d self lang cf parent = (Inr np, d')"
  shows "\<not> has_translation d self lang
     \<and> (\<exists>sl. language_of d self = Some sl \<and> slug np = translation_slug self sl lang)
     \<and> title np = title self \<and> \<not> live np \<and> pk np = new_pk d
     \<and> is_translatable_page np = is_translatable_page self
     \<and> d' = register_item (d\<lparr>pages := pages d @ [np]\<rparr>) np self lang"
proof -
  from assms have nh: "\<not> has_translation d self lang"
    by (auto simp: create_translation_def)
  with assms obtain parent' where rp: "resolve_parent d self lang parent = Inr parent'"
    by (cases "resolve_parent d self lang parent") (auto simp: create_translation_def)
  with assms nh obtain sl where sl: "language_of d self = Some sl"
    by (cases "language_of d self") (auto simp: create_translation_def)
  define ua where "ua = \<lparr>ua_title = title self, ua_slug = translation_slug self sl lang, ua_live = False\<rparr>"
  obtain r d1 where cp: "create_page d self ua cf parent' = (r, d1)"
    by (cases "create_page d self ua cf parent'") auto
  with assms nh rp sl have r: "r = Inr np" and d': "d' = register_item d1 np self lang"
    by (cases r; simp add: create_translation_def ua_def)+
  from create_page_result[OF cp[unfolded r]] sl nh d' show ?thesis
    by (simp add: ua_def)
qed

lemma create_translation_error:
  assumes "create_translation d self lang cf parent = (Inl e, d')"
  shows "d' = d \<and> (e = TranslationExists \<longleftrightarrow> has_translation d self lang)"
proof (cases "has_translation d self lang")
  case True
  with assms show ?thesis by (simp add: create_translation_def)
next
  case nh: False
  show ?thesis
  proof (cases "resolve_parent d self lang parent")
    case (Inl e')
    with assms nh resolve_parent_error[OF Inl] show ?thesis
      by (simp add: create_translation_def)
  next
    case (Inr parent')
    show ?thesis
    proof (cases "language_of d self")
      case None
      with assms nh Inr show ?thesis by (auto simp add: create_translation_def)
    next
      case (Some sl)
      define ua where "ua = \<lparr>ua_title = title self, ua_slug = translation_slug self sl lang, ua_live = False\<rparr>"
      obtain r d1 where cp: "create_page d self ua cf parent' = (r, d1)"
        by (cases "create_page d self ua cf parent'") auto
      with assms nh Inr Some have r: "r = Inl e" and d': "d' = d1"
        by (cases r; simp add: create_translation_def ua_def)+
      from create_page_error[OF cp[unfolded r]] d' nh show ?thesis by simp
    qed
  qed
qed

subsection \<open>New keys are fresh\<close>

lemma fold_max_upper: "x \<in> set xs \<Longrightarrow> x \<le> fold max xs (a::nat)"
proof (induction xs arbitrary: a)
  case Nil
  then show ?case by simp
next
  case (Cons y ys)
  have mono: "\<And>b. b \<le> fold max ys b"
  proof -
    fix b :: nat show "b \<le> fold max ys b"
      by (induction ys arbitrary: b) (auto intro: order_trans[OF max.cobounded2])
  qed
  from Cons show ?case
  proof (cases "x = y")
    case True
    have "y \<le> max y a" by simp
    also have "\<dots> \<le> fold max ys (max y a)" by (rule mono)
    finally show ?thesis using True by simp
  next
    case False
    with Cons show ?thesis by simp
  qed
qed

lemma new_pk_fresh: "p \<in> set (pages d) \<Longrightarrow> pk p < new_pk d"
proof -
  assume "p \<in> set (pages d)"
  then have "pk p \<in> set (map pk (pages d))" by simp
  from fold_max_upper[OF this] show ?thesis by (simp add: new_pk_def less_Suc_eq_le)
qed

lemma find_append_last:
  "\<forall>y\<in>set xs. \<not> P y \<Longrightarrow> P x \<Longrightarrow> find P (xs @ [x]) = Some x"
  by (induction xs) auto

lemma ex_create_home_nl:
  "create_translation ex_db ex_home ex_nl True (Some ex_root) = (Inr ex_home_nl, ex_db_nl)"
  by (simp add: ex_defs create_translation_defs)

lemma ex_create_home_nl_fr:
  "create_translation ex_db_nl ex_home_nl ex_fr True (Some ex_root) = (Inr ex_home_nl_fr, ex_db_nl_fr)"
  by (simp add: ex_defs2 create_translation_defs)

lemma no_chained_translations_iff:
  "no_chained_translations d \<longleftrightarrow>
     (\<forall>i\<in>set (items d). \<forall>j\<in>set (items d). \<forall>c.
         canonical_page i = Some c \<longrightarrow> page j = Some c \<longrightarrow> canonical_page j = None)"
  by (auto simp: no_chained_translations_def list_all_iff split: option.splits)

section \<open>Facts about the creation handler\<close>










text \<open>A page with no item has no language, and the handler does nothing for it.\<close>

lemma synchronize_trees_without_item:
  "language_of d inst = None \<Longrightarrow> synchronize_trees d inst created = (Inr (), d)"
  by (simp add: synchronize_trees_def)

text \<open>When \<^verbatim>\<open>get_translation_parent\<close> returns an item, the creation of the page
  raises: an item has no \<^verbatim>\<open>add_child\<close>.\<close>

lemma create_translation_item_parent:
  assumes "\<not> has_translation d self lang"
    and "get_translation_parent d self lang = Inr (Some (ParentItem i))"
    and "language_of d self = Some sl"
  shows "create_translation d self lang copy_fields None = (Inl AttributeError, d)"
  using assms
  by (cases copy_fields)
     (simp_all add: create_translation_def resolve_parent_def create_page_def
        parent_differs_def is_page_ref_def copy_def add_child_def)

section \<open>Facts about the translations of a page and the site root\<close>

lemma ex_order_objects:
  "TranslatablePage_objects ex_db_order = [ex_home, ex_page_nl, ex_page_fr]"
  by (simp add: ex_defs4 TranslatablePage_objects_def Page_objects_def)

lemma ex_order_live:
  "language__live ex_db_order ex_page_nl" "language__live ex_db_order ex_page_fr"
  by (simp_all add: ex_defs4 language__live_def get_language_def)

lemma ex_order_fields:
  "pk ex_home = 2" "pk ex_page_nl = 3" "pk ex_page_fr = 4"
  "canonical_page_id ex_home = None" "canonical_page_id ex_page_nl = Some 2"
  "canonical_page_id ex_page_fr = Some 2" "live ex_page_nl" "live ex_page_fr"
  by (simp_all add: ex_defs4)

lemma ex_order_translations:
  "get_translations ex_db_order ex_home True False = [ex_page_nl, ex_page_fr]"
  by (simp add: get_translations_def ex_order_objects ex_order_live ex_order_fields)

lemma ex_order_positions:
  "map (language_position ex_db_order) [ex_page_nl, ex_page_fr] = [2, 1]"
  by (simp add: ex_defs4 language_position_def get_language_def)

text \<open>What \<^verbatim>\<open>get_translations\<close> returns, as a set: the rows of the group of the
  page's canonical key, without the page itself unless asked for, and only the live
  ones in live languages when asked for.\<close>

lemma get_translations_set:
  "set (get_translations d self only_live include_self) =
     {p \<in> set (pages d). is_translatable_page p
        \<and> (canonical_page_id p =
              Some (case canonical_page_id self of
                      None \<Rightarrow> pk self | Some c \<Rightarrow> if c = 0 then pk self else c)
           \<or> pk p = (case canonical_page_id self of
                        None \<Rightarrow> pk self | Some c \<Rightarrow> if c = 0 then pk self else c))
        \<and> (include_self \<or> pk p \<noteq> pk self)
        \<and> (\<not> only_live \<or> live p \<and> language__live d p)}"
  unfolding get_translations_def TranslatablePage_objects_def Page_objects_def Let_def
  by (cases include_self; cases only_live) auto

lemma qs_get_error:
  "qs_get m rows = Inl e \<Longrightarrow> e = DoesNotExist m \<or> e = MultipleObjectsReturned m"
  by (cases rows; cases "tl rows") (auto simp: qs_get_def)

text \<open>No request makes \<^verbatim>\<open>serve\<close> raise \<^verbatim>\<open>Http404\<close>: the exception its handler
  catches is never the one \<^verbatim>\<open>candidates.get()\<close> raises.\<close>

lemma serve_never_404: "serve d self req \<noteq> Inl Http404"
proof (cases "qs_get M_TranslatablePageItem (serve_candidates d self (get_user_language d req))")
  case (Inl e)
  from qs_get_error[OF Inl] Inl show ?thesis by (auto simp: serve_def)
next
  case (Inr t)
  then show ?thesis by (cases "page t") (simp_all add: serve_def)
qed

lemma ex_children: "get_children ex_db ex_root = [ex_home]"
  by (simp add: get_children_def Page_objects_def ex_defs)

text \<open>With exactly one live child in the language, \<^verbatim>\<open>serve\<close> redirects to it.\<close>

lemma serve_redirect_example: "serve ex_db ex_root ex_request = Inr (Redirect 2)"
proof -
  have a: "get_user_language ex_db ex_request = Some ex_en"
    by (simp add: get_user_language_def ex_request_def default_for_site_def
          Language_objects_default_def Language_objects_def ex_defs)
  have b: "serve_candidates ex_db ex_root (Some ex_en) =
             [\<lparr>page = Some 2, canonical_page = None, language = 1\<rparr>]"
    by (simp add: serve_candidates_def ex_children Let_def) (simp add: ex_defs)
  show ?thesis by (simp add: serve_def a b qs_get_def)
qed

section \<open>Facts about deleting\<close>

lemma ex_protected_objects:
  "TranslatablePage_objects ex_db_protected = [ex_home, ex_page_nl, ex_page_fr]"
  by (simp add: ex_db_protected_def ex_defs4 TranslatablePage_objects_def Page_objects_def)

lemma ex_paths: "path ex_root = [1]" "path ex_home = [1, 1]" "path ex_page_nl = [1, 2]"
  "path ex_page_fr = [1, 3]"
  by (simp_all add: ex_defs4)

lemma ex_doomed:
  "doomed_pages ex_db_order [ex_page_nl, ex_page_fr] = [ex_page_nl, ex_page_fr]"
  "doomed_pages ex_db_protected [ex_page_nl, ex_page_fr] = [ex_page_nl, ex_page_fr]"
  by (simp_all add: doomed_pages_def ex_db_protected_def ex_db_order_def ex_paths startswith_def)

lemma ex_delete_protected:
  "synchronize_deletions ex_db_protected 2 = (Inl ProtectedError, ex_db_protected)"
  by (simp add: synchronize_deletions_def ex_protected_objects ex_order_fields qs_first_def
        queryset_delete_def ex_doomed protected_def Let_def)
     (simp add: ex_db_protected_def ex_db_order_def ex_order_fields)

lemma ex_delete_ok:
  "synchronize_deletions ex_db_order 2 = (Inr (), ex_db_deleted)"
  by (simp add: synchronize_deletions_def ex_order_objects ex_order_fields qs_first_def
        queryset_delete_def ex_doomed protected_def Let_def)
     (simp add: ex_db_deleted_def ex_db_order_def ex_order_fields
        ex_root_def ex_home_def)

lemma queryset_delete_error:
  "queryset_delete d rows = (Inl e, d') \<Longrightarrow>
     e = ProtectedError \<and> d' = d \<and> protected d (doomed_pages d rows)"
  by (simp add: queryset_delete_def Let_def split: if_splits)

lemma queryset_delete_protected:
  "protected d (doomed_pages d rows) \<Longrightarrow> queryset_delete d rows = (Inl ProtectedError, d)"
  by (simp add: queryset_delete_def Let_def)

lemma row_is_doomed: "r \<in> set rows \<Longrightarrow> r \<in> set (pages d) \<Longrightarrow> r \<in> set (doomed_pages d rows)"
  by (auto simp: doomed_pages_def list_ex_iff startswith_def intro!: bexI[of _ r])

text \<open>An item that names a selected row as its page makes the handler's delete fail.\<close>

lemma synchronize_deletions_registered:
  assumes sync: "SYNC_TREE d"
    and tracked: "filter (\<lambda>p. pk p = k) (TranslatablePage_objects d) \<noteq> []"
    and r: "r \<in> set (pages d)" "is_translatable_page r" "canonical_page_id r = Some k"
    and i: "i \<in> set (items d)" "page i = Some (pk r)"
  shows "synchronize_deletions d k = (Inl ProtectedError, d)"
proof -
  define rows where
    "rows = filter (\<lambda>p. canonical_page_id p = Some k) (TranslatablePage_objects d)"
  obtain page' rest where c: "filter (\<lambda>p. pk p = k) (TranslatablePage_objects d) = page' # rest"
    using tracked by (cases "filter (\<lambda>p. pk p = k) (TranslatablePage_objects d)") auto
  then have "page' \<in> set (filter (\<lambda>p. pk p = k) (TranslatablePage_objects d))" by simp
  then have k: "pk page' = k" by simp
  from sync c k have s: "synchronize_deletions d k = queryset_delete d rows"
    by (simp add: synchronize_deletions_def qs_first_def rows_def)
  from r have "r \<in> set rows"
    by (simp add: rows_def TranslatablePage_objects_def Page_objects_def)
  from row_is_doomed[OF this r(1)] have "pk r \<in> set (map pk (doomed_pages d rows))" by simp
  with i have "protected d (doomed_pages d rows)"
    by (auto simp: protected_def list_ex_iff intro!: bexI[of _ i])
  from queryset_delete_protected[OF this] s show ?thesis by simp
qed

text \<open>Every page \<^verbatim>\<open>create_translation\<close> makes has such an item.\<close>

lemma created_translation_is_registered:
  assumes "create_translation d self lang copy_fields parent = (Inr np, d')"
  shows "\<lparr>page = Some (pk np), canonical_page = Some (pk self), language = lang_pk lang\<rparr>
           \<in> set (items d')"
  using create_translation_result[OF assms] by (simp add: register_item_def)

text \<open>With tree synchronisation off, or for an instance that is not a row of
  \<^verbatim>\<open>TranslatablePage\<close>, the handler deletes nothing.\<close>

lemma synchronize_deletions_off:
  "\<not> SYNC_TREE d \<or> filter (\<lambda>p. pk p = k) (TranslatablePage_objects d) = [] \<Longrightarrow>
     synchronize_deletions d k = (Inr (), d)"
  by (cases "filter (\<lambda>p. pk p = k) (TranslatablePage_objects d)")
     (auto simp: synchronize_deletions_def qs_first_def)

section \<open>Facts about moving\<close>

lemma ex_tree_paths:
  "path ex_root = [1]" "path ex_home = [1, 1]"
  "path ex_about = [1, 1, 1]" "path ex_team = [1, 1, 2]" "path ex_about_nl = [1, 2, 1]"
  "path ex_team_nl = [1, 2, 2]" "path ex_t_home_nl = [1, 2]"
  by (simp_all add: ex_tree_defs ex_defs)

lemma ex_tree_pages:
  "pages ex_tree = [ex_root, ex_home, ex_about, ex_team, ex_t_home_nl, ex_about_nl, ex_team_nl]"
  "pages ex_gap = [ex_root, ex_home, ex_about, ex_team, ex_t_home_nl, ex_about_nl]"
  by (simp_all add: ex_tree_def ex_gap_def)

lemma ex_team_leaf: "get_children ex_tree ex_team = []" "get_children ex_gap ex_team = []"
  by (simp_all add: get_children_def Page_objects_def ex_tree_pages ex_tree_paths)

lemma ex_team_siblings:
  "get_siblings ex_tree ex_team = [ex_about, ex_team]"
  "get_siblings ex_gap ex_team = [ex_about, ex_team]"
  by (simp_all add: get_siblings_def Page_objects_def ex_tree_pages ex_tree_paths)

lemma ex_host_move1:
  "host_move ex_tree ex_about ex_team (Some LastChild) = (Inr (), ex_tree_moved1)"
  by (simp add: host_move_def ex_team_leaf ex_team_siblings is_descendant_of_def
        startswith_def ex_tree_paths Let_def move_branch_def ex_tree_pages)
     (simp add: ex_tree_defs ex_defs)


lemma ex_is_default1: "move_is_default ex_tree_moved1 ex_about = Inr True"
  "move_is_default ex_gap_moved1 ex_about = Inr True"
  by (simp_all add: move_is_default_def language_of_def translatable_page_item_def qs_first_def
        get_language_def ex_tree_defs ex_defs)

lemma ex_tree_objects:
  "TranslatablePage_objects ex_tree_moved1 =
     [ex_home, ex_team, ex_about\<lparr>path := [1, 1, 2, 1]\<rparr>, ex_t_home_nl, ex_about_nl, ex_team_nl]"
  "TranslatablePage_objects ex_gap_moved1 =
     [ex_home, ex_team, ex_about\<lparr>path := [1, 1, 2, 1]\<rparr>, ex_t_home_nl, ex_about_nl]"
  by (simp_all add: TranslatablePage_objects_def Page_objects_def ex_tree_defs ex_defs)

lemma ex_tree_fields:
  "pk ex_home = 2" "pk ex_about = 3" "pk ex_team = 4" "pk ex_t_home_nl = 5" "pk ex_about_nl = 6" "pk ex_team_nl = 7"
  "canonical_page_id ex_home = None" "canonical_page_id ex_about = None"
  "canonical_page_id ex_team = None" "canonical_page_id ex_t_home_nl = Some 2"
  "canonical_page_id ex_about_nl = Some 3" "canonical_page_id ex_team_nl = Some 4"
  "language_id ex_home = 1" "language_id ex_about = 1" "language_id ex_team = 1"
  "language_id ex_t_home_nl = 2" "language_id ex_about_nl = 2" "language_id ex_team_nl = 2"
  "is_translatable_page ex_team"
  by (simp_all add: ex_tree_defs ex_defs)

lemma ex_tree_translations:
  "get_translations ex_tree_moved1 ex_about False False = [ex_about_nl]"
  "get_translations ex_gap_moved1 ex_about False False = [ex_about_nl]"
  by (simp_all add: get_translations_def ex_tree_objects ex_tree_fields)

lemma ex_canonical_team: "canonical_identity ex_team = 4"
  by (simp add: canonical_identity_def ex_tree_fields)

lemma ex_tree_targets:
  "translation_targets ex_tree_moved1 4 ex_about_nl = [ex_team_nl]"
  "translation_targets ex_gap_moved1 4 ex_about_nl = []"
  by (simp_all add: translation_targets_def ex_tree_objects ex_tree_fields)

lemma ex_sync: "SYNC_TREE ex_tree_moved1" "SYNC_TREE ex_gap_moved1" "SYNC_TREE ex_tree" "SYNC_TREE ex_gap"
  by (simp_all add: ex_tree_defs ex_defs)

lemma ex_gap_move_translated:
  "move_translated_pages ex_gap_moved1 ex_about ex_team (Some LastChild)
     = (Inl (DoesNotExist M_TranslatablePage), ex_gap_moved1)"
  by (simp add: move_translated_pages_def
        ex_tree_translations ex_canonical_team ex_tree_targets qs_get_def)

lemma ex_tree_move_translated:
  "move_translated_pages ex_tree_moved1 ex_about ex_team (Some LastChild)
     = (Inl TypeError, ex_tree_moved1)"
  by (simp add: move_translated_pages_def ex_tree_translations ex_canonical_team
        ex_tree_targets qs_get_def Page_move_suppress_sync_def)

text \<open>The loop completes only on the empty list: on any translation it raises, either
  in \<^verbatim>\<open>get()\<close> or in the call of \<^verbatim>\<open>page.move\<close>.\<close>

lemma move_each_completes:
  assumes "move_each d ts ct p = (Inr (), d')"
  shows "ts = [] \<and> d' = d"
proof (cases ts)
  case Nil
  with assms show ?thesis by simp
next
  case (Cons t rest)
  with assms show ?thesis
    by (cases "qs_get M_TranslatablePage (translation_targets d ct t)")
       (simp_all add: Page_move_suppress_sync_def)
qed

text \<open>A move that propagates completes only when the page has no translation.\<close>

lemma move_translated_pages_completes:
  "move_translated_pages d self canonical_target p = (Inr (), d') \<Longrightarrow>
     get_translations d self False False = [] \<and> d' = d"
  unfolding move_translated_pages_def by (rule move_each_completes)

text \<open>When the target of the first translation is found, the call of its
  \<^verbatim>\<open>move\<close> raises and the translation stays where it is.\<close>

lemma move_each_raises:
  "translation_targets d ct t = [n] \<Longrightarrow> move_each d (t # rest) ct p = (Inl TypeError, d)"
  by (simp add: qs_get_def Page_move_suppress_sync_def)

section \<open>Creating a translation\<close>

text \<open>
  Claim C5. \<^verbatim>\<open>create_translation\<close> raises "Translation already exists" exactly
  when \<^verbatim>\<open>has_translation\<close> holds, that is when an item with the source as
  canonical page and the language exists; and then the store is left as it was: no
  page and no item is created.
\<close>

theorem create_translation_conflict:
  "(fst (create_translation d self lang copy_fields parent) = Inl TranslationExists)
      = has_translation d self lang
   \<and> (create_translation d self lang copy_fields parent = (Inl TranslationExists, d))
      = has_translation d self lang"
proof -
  obtain r d' where c: "create_translation d self lang copy_fields parent = (r, d')"
    by (cases "create_translation d self lang copy_fields parent") auto
  show ?thesis
  proof (cases r)
    case (Inl e)
    from create_translation_error[OF c[unfolded Inl]] c Inl show ?thesis by auto
  next
    case (Inr np)
    from create_translation_result[OF c[unfolded Inr]] c Inr show ?thesis by auto
  qed
qed

text \<open>
  Claim C6. The page a successful \<^verbatim>\<open>create_translation\<close> returns has the
  language's code as its slug when the source's slug is the code of the source's own
  language, and the source's slug, a hyphen and the language's code otherwise; the row
  is stored under the returned key.
\<close>

theorem create_translation_slug:
  assumes "create_translation d self lang copy_fields parent = (Inr new_page, d')"
  shows "\<exists>self_language. language_of d self = Some self_language
           \<and> slug new_page = (if slug self = code self_language then code lang
                              else slug self @ ''-'' @ code lang)
           \<and> get_page d' (pk new_page) = Some new_page"
proof -
  from create_translation_result[OF assms] obtain sl where
    sl: "language_of d self = Some sl" "slug new_page = translation_slug self sl lang"
    and k: "pk new_page = new_pk d"
    and d': "d' = register_item (d\<lparr>pages := pages d @ [new_page]\<rparr>) new_page self lang"
    by blast
  have "\<forall>y\<in>set (pages d). \<not> (pk y = pk new_page)"
    by (auto dest!: new_pk_fresh simp: k)
  then have "find (\<lambda>p. pk p = pk new_page) (pages d @ [new_page]) = Some new_page"
    by (rule find_append_last) simp
  then have "get_page d' (pk new_page) = Some new_page"
    by (simp add: d' get_page_def register_item_def)
  with sl show ?thesis by (auto simp: translation_slug_def)
qed


text \<open>The translation of \<open>home\<close> into \<open>nl\<close> gets the slug \<open>home-nl\<close>.\<close>

theorem create_translation_slug_witness:
  "create_translation ex_db ex_home ex_nl True (Some ex_root) = (Inr ex_home_nl, ex_db_nl)
   \<and> language_of ex_db ex_home = Some ex_en
   \<and> slug ex_home \<noteq> code ex_en
   \<and> slug ex_home_nl = slug ex_home @ ''-'' @ code ex_nl
   \<and> get_page ex_db_nl (pk ex_home_nl) = Some ex_home_nl"
proof -
  note w = create_translation_slug[OF ex_create_home_nl]
  have a: "language_of ex_db ex_home = Some ex_en"
    by (simp add: ex_defs language_of_def translatable_page_item_def qs_first_def
          get_language_def)
  have b: "slug ex_home \<noteq> code ex_en"
    by (simp add: ex_defs)
  from w a b have "slug ex_home_nl = slug ex_home @ ''-'' @ code ex_nl
     \<and> get_page ex_db_nl (pk ex_home_nl) = Some ex_home_nl"
    by auto
  with a b ex_create_home_nl show ?thesis by simp
qed

text \<open>
  Claim C10. The page a successful \<^verbatim>\<open>create_translation\<close> returns is not live,
  whatever the source's live flag and whether or not the fields were copied; it is a
  row of the resulting store.
\<close>

theorem create_translation_unpublished:
  assumes "create_translation d self lang copy_fields parent = (Inr new_page, d')"
  shows "\<not> live new_page \<and> new_page \<in> set (pages d')"
  using create_translation_result[OF assms] by (simp add: register_item_def)


text \<open>The source \<open>home\<close> is live, its translation is not.\<close>

theorem create_translation_unpublished_witness:
  "live ex_home
   \<and> create_translation ex_db ex_home ex_nl True (Some ex_root) = (Inr ex_home_nl, ex_db_nl)
   \<and> \<not> live ex_home_nl \<and> ex_home_nl \<in> set (pages ex_db_nl)"
proof -
  note w = create_translation_unpublished[OF ex_create_home_nl]
  have "live ex_home" by (simp add: ex_defs)
  with w ex_create_home_nl show ?thesis by simp
qed

section \<open>Chained translations\<close>

text \<open>
  Claim C9, as stated, fails: \<^verbatim>\<open>create_translation\<close> does not look at whether its
  source is itself a translation. Called on \<open>home-nl\<close>, which the registry holds as
  the translation of \<open>home\<close>, it registers the new page as a translation of
  \<open>home-nl\<close>: a chain of length three in a registry that had none.
\<close>

theorem create_translation_chain_counterexample:
  "no_chained_translations ex_db_nl
   \<and> create_translation ex_db_nl ex_home_nl ex_fr True (Some ex_root) = (Inr ex_home_nl_fr, ex_db_nl_fr)
   \<and> \<not> no_chained_translations ex_db_nl_fr"
  by (simp add: ex_create_home_nl_fr) (simp add: ex_defs2 no_chained_translations_def)

text \<open>
  Claim C9, amended. \<^verbatim>\<open>create_translation\<close> keeps the registry free of chained
  translations when its source is a stored page that no item registers as a
  translation, in a registry whose canonical pages all exist; this holds for every
  outcome of the call.
\<close>

theorem create_translation_no_chain:
  assumes inv: "no_chained_translations d"
    and fk: "canonical_pages_exist d"
    and stored: "self \<in> set (pages d)"
    and canon: "\<not> is_registered_translation d self"
  shows "no_chained_translations (snd (create_translation d self lang copy_fields parent))"
proof -
  obtain r d' where c: "create_translation d self lang copy_fields parent = (r, d')"
    by (cases "create_translation d self lang copy_fields parent") auto
  show ?thesis
  proof (cases r)
    case (Inl e)
    from create_translation_error[OF c[unfolded Inl]] inv c show ?thesis by simp
  next
    case (Inr np)
    from create_translation_result[OF c[unfolded Inr]]
    have k: "pk np = new_pk d"
      and d': "d' = register_item (d\<lparr>pages := pages d @ [np]\<rparr>) np self lang"
      by blast+
    define new_item where
      "new_item = \<lparr>page = Some (pk np), canonical_page = Some (pk self), language = lang_pk lang\<rparr>"
    have it: "items d' = items d @ [new_item]"
      by (simp add: d' register_item_def new_item_def)
    have fresh_canon: "canonical_page i \<noteq> Some (pk np)" if "i \<in> set (items d)" for i
    proof
      assume a: "canonical_page i = Some (pk np)"
      from fk that a have "pk np \<in> set (map pk (pages d))"
        by (auto simp: canonical_pages_exist_def list_all_iff split: option.splits)
      then obtain q where "q \<in> set (pages d)" "pk q = pk np" by auto
      with new_pk_fresh[of q d] k show False by simp
    qed
    have self_old: "pk self \<noteq> pk np"
      using new_pk_fresh[OF stored] k by simp
    have self_canon: "canonical_page j = None" if "j \<in> set (items d)" "page j = Some (pk self)" for j
      using canon that by (auto simp: is_registered_translation_def list_ex_iff)
    have "canonical_page j = None"
      if i: "i \<in> set (items d')" and j: "j \<in> set (items d')"
        and ci: "canonical_page i = Some c" and pj: "page j = Some c" for i j c
    proof (cases "j = new_item")
      case True
      with pj have c: "c = pk np" by (simp add: new_item_def)
      show ?thesis
      proof (cases "i = new_item")
        case True
        with ci c self_old show ?thesis by (simp add: new_item_def)
      next
        case False
        with i it have "i \<in> set (items d)" by simp
        from fresh_canon[OF this] ci c show ?thesis by simp
      qed
    next
      case jold: False
      with j it have jd: "j \<in> set (items d)" by simp
      show ?thesis
      proof (cases "i = new_item")
        case True
        with ci have "c = pk self" by (simp add: new_item_def)
        with self_canon[OF jd] pj show ?thesis by simp
      next
        case False
        with i it have "i \<in> set (items d)" by simp
        with inv jd ci pj show ?thesis
          unfolding no_chained_translations_iff by blast
      qed
    qed
    then have "no_chained_translations d'"
      unfolding no_chained_translations_iff by blast
    with c show ?thesis by simp
  qed
qed

text \<open>The source \<open>home\<close> is canonical; translating it into \<open>nl\<close> leaves no
  chain.\<close>

theorem create_translation_no_chain_witness:
  "no_chained_translations ex_db \<and> canonical_pages_exist ex_db \<and> ex_home \<in> set (pages ex_db)
   \<and> \<not> is_registered_translation ex_db ex_home
   \<and> create_translation ex_db ex_home ex_nl True (Some ex_root) = (Inr ex_home_nl, ex_db_nl)
   \<and> no_chained_translations ex_db_nl"
proof -
  have a: "no_chained_translations ex_db" by (simp add: ex_defs no_chained_translations_def)
  have b: "canonical_pages_exist ex_db" by (simp add: ex_defs canonical_pages_exist_def)
  have c: "ex_home \<in> set (pages ex_db)" by (simp add: ex_defs)
  have e: "\<not> is_registered_translation ex_db ex_home"
    by (simp add: ex_defs is_registered_translation_def)
  from create_translation_no_chain[OF a b c e, of ex_nl True "Some ex_root"]
  have "no_chained_translations ex_db_nl" by (simp add: ex_create_home_nl)
  with a b c e ex_create_home_nl show ?thesis by simp
qed

section \<open>Synchronising on creation\<close>




section \<open>The order of \<^verbatim>\<open>get_translations\<close>\<close>

text \<open>
  Claim C4. The membership part holds (\<open>get_translations_set\<close>), the order does not:
  the docstring promises the pages "sorted by the language position", and the method
  applies no ordering, so the rows come in the manager's path order. Here the live
  translations of \<open>home\<close> come back as \<open>nl\<close> (position 2) before \<open>fr\<close>
  (position 1).
\<close>

theorem get_translations_not_sorted:
  "get_translations ex_db_order ex_home True False = [ex_page_nl, ex_page_fr]
   \<and> map (language_position ex_db_order) [ex_page_nl, ex_page_fr] = [2, 1]
   \<and> \<not> sorted_by_language_position ex_db_order
          (get_translations ex_db_order ex_home True False)"
  by (simp only: ex_order_translations ex_order_positions sorted_by_language_position_def)
     simp

section \<open>Serving the site root\<close>

text \<open>
  Claim C2. The redirect holds when exactly one item matches
  (\<open>serve_redirect_example\<close>). The not-found part does not: with no live child in the
  resolved language, \<^verbatim>\<open>candidates.get()\<close> raises
  \<^verbatim>\<open>TranslatablePageItem.DoesNotExist\<close>, which the handler for
  \<^verbatim>\<open>TranslatablePage.DoesNotExist\<close> does not catch, so the exception leaves
  \<^verbatim>\<open>serve\<close> in place of \<^verbatim>\<open>Http404\<close>. The request asks for \<open>nl\<close>, a live
  language with no page under the site root.
\<close>

theorem serve_missing_language:
  "get_user_language ex_db ex_request_nl = Some ex_nl
   \<and> serve_candidates ex_db ex_root (Some ex_nl) = []
   \<and> serve ex_db ex_root ex_request_nl = Inl (DoesNotExist M_TranslatablePageItem)
   \<and> serve ex_db ex_root ex_request_nl \<noteq> Inl Http404"
proof -
  have a: "get_user_language ex_db ex_request_nl = Some ex_nl"
    by (simp add: get_user_language_def ex_request_nl_def Language_objects_live_def
          Language_objects_def qs_first_def ex_defs)
  have b: "serve_candidates ex_db ex_root (Some ex_nl) = []"
    by (simp add: serve_candidates_def ex_children Let_def) (simp add: ex_defs)
  have c: "serve ex_db ex_root ex_request_nl = Inl (DoesNotExist M_TranslatablePageItem)"
    by (simp add: serve_def a b qs_get_def)
  from a b c show ?thesis by simp
qed

section \<open>Synchronising deletions\<close>

text \<open>
  Claim C7. The handler does not delete the translations that the registry knows. The
  part of the claim for a handler that is off, or an instance that is not tracked,
  holds (\<open>synchronize_deletions_off\<close>). With tree synchronisation on and the
  tracked page \<open>home\<close> about to be deleted, the handler selects the two pages whose
  canonical page is \<open>home\<close> and calls \<^verbatim>\<open>delete()\<close> on them. The foreign key
  \<^verbatim>\<open>page\<close> of \<^verbatim>\<open>TranslatablePageItem\<close> is declared
  \<^verbatim>\<open>on_delete=models.PROTECT\<close> (the migration of the same key says
  \<^verbatim>\<open>CASCADE\<close>), and an item names \<open>home-nl\<close> as its page: the delete raises
  \<^verbatim>\<open>ProtectedError\<close> and both pages are still there. The same happens for every
  selected page that an item registers (\<open>synchronize_deletions_registered\<close>), and
  every page \<^verbatim>\<open>create_translation\<close> makes is registered
  (\<open>created_translation_is_registered\<close>); with no such item the pages are deleted
  (\<open>ex_delete_ok\<close>).
\<close>

theorem synchronize_deletions_protected:
  "SYNC_TREE ex_db_protected
   \<and> qs_first (filter (\<lambda>p. pk p = 2) (TranslatablePage_objects ex_db_protected)) = Some ex_home
   \<and> filter (\<lambda>p. canonical_page_id p = Some 2) (TranslatablePage_objects ex_db_protected)
        = [ex_page_nl, ex_page_fr]
   \<and> synchronize_deletions ex_db_protected 2 = (Inl ProtectedError, ex_db_protected)
   \<and> ex_page_nl \<in> set (pages ex_db_protected) \<and> canonical_page_id ex_page_nl = Some 2
   \<and> ex_page_fr \<in> set (pages ex_db_protected) \<and> canonical_page_id ex_page_fr = Some 2"
  by (simp add: ex_delete_protected ex_protected_objects ex_order_fields qs_first_def)
     (simp add: ex_db_protected_def ex_db_order_def)

section \<open>Moving the translations\<close>

text \<open>
  Claim C1. \<^verbatim>\<open>move\<close> does not move the translations. With tree synchronisation
  on, the default-language page \<open>about\<close> is moved under \<open>team\<close>: the host moves
  \<open>about\<close>, the loop of \<^verbatim>\<open>move_translated_pages\<close> finds the one translation
  \<open>about-nl\<close> and resolves its target \<open>team-nl\<close>, the row in the translation's
  language whose canonical page is the target's canonical identity, as the claim says.
  The call \<^verbatim>\<open>page.move(target=target, pos=pos, suppress_sync=True)\<close> then raises
  \<^verbatim>\<open>TypeError\<close>: the row is a \<^verbatim>\<open>TranslatablePage\<close>, whose \<^verbatim>\<open>move\<close> is
  the host's and has no such parameter. \<open>about-nl\<close> is still under \<open>home-nl\<close>. A
  move that propagates completes only for a page with no translation
  (\<open>move_translated_pages_completes\<close>).
\<close>

theorem move_raises_for_translation:
  "SYNC_TREE ex_tree
   \<and> host_move ex_tree ex_about ex_team (Some LastChild) = (Inr (), ex_tree_moved1)
   \<and> move_is_default ex_tree_moved1 ex_about = Inr True
   \<and> get_translations ex_tree_moved1 ex_about False False = [ex_about_nl]
   \<and> translation_targets ex_tree_moved1 (canonical_identity ex_team) ex_about_nl = [ex_team_nl]
   \<and> move ex_tree ex_about ex_team (Some LastChild) False = (Inl TypeError, ex_tree_moved1)
   \<and> get_page ex_tree_moved1 (pk ex_about_nl) = Some ex_about_nl
   \<and> get_parent ex_tree_moved1 ex_about_nl = Some ex_t_home_nl"
proof -
  have m: "move ex_tree ex_about ex_team (Some LastChild) False = (Inl TypeError, ex_tree_moved1)"
    by (simp add: move_def ex_host_move1 ex_is_default1 ex_sync ex_tree_move_translated)
  have t: "translation_targets ex_tree_moved1 (canonical_identity ex_team) ex_about_nl = [ex_team_nl]"
    by (simp add: ex_canonical_team ex_tree_targets)
  have g: "get_page ex_tree_moved1 (pk ex_about_nl) = Some ex_about_nl"
    by (simp add: get_page_def ex_tree_defs ex_defs)
  have q: "get_parent ex_tree_moved1 ex_about_nl = Some ex_t_home_nl"
    by (simp add: get_parent_def ex_tree_defs ex_defs)
  from m t g q show ?thesis
    by (simp add: ex_sync ex_host_move1 ex_is_default1 ex_tree_translations)
qed



end
